theory Spec2Isabelle
  imports Main
begin

section \<open>Go values used by the program\<close>

text \<open>
  A Go \<^verbatim>\<open>string\<close> is a byte sequence, modelled as \<^typ>\<open>string\<close>. A Go
  \<^verbatim>\<open>[]string\<close> is either the nil slice or a (possibly empty) sequence; the two are
  told apart by \<^verbatim>\<open>== nil\<close> and by the JSON encoder, so the slice is an option:
  \<open>None\<close> is nil, \<open>Some []\<close> is \<^verbatim>\<open>[]string{}\<close>. \<^verbatim>\<open>len\<close> and \<^verbatim>\<open>range\<close> treat both
  alike. Go's \<^verbatim>\<open>int\<close> is modelled as \<^typ>\<open>int\<close>: the program only stores, compares
  and prints it.
\<close>

type_synonym strslice = "string list option"

definition len :: "strslice \<Rightarrow> nat" where
  "len s = (case s of None \<Rightarrow> 0 | Some xs \<Rightarrow> length xs)"

definition elems :: "strslice \<Rightarrow> string list" where
  "elems s = (case s of None \<Rightarrow> [] | Some xs \<Rightarrow> xs)"

text \<open>\<^verbatim>\<open>strings.Contains(s, substr)\<close>: \<open>substr\<close> occurs in \<open>s\<close> as a contiguous block.\<close>

fun HasPrefix :: "string \<Rightarrow> string \<Rightarrow> bool" where
  "HasPrefix s [] = True"
| "HasPrefix [] (p # ps) = False"
| "HasPrefix (c # cs) (p # ps) = (c = p \<and> HasPrefix cs ps)"

fun Contains :: "string \<Rightarrow> string \<Rightarrow> bool" where
  "Contains [] substr = HasPrefix [] substr"
| "Contains (c # cs) substr = (HasPrefix (c # cs) substr \<or> Contains cs substr)"

subsection \<open>The verbs of \<^verbatim>\<open>fmt.Sprintf\<close> that the program uses\<close>

definition fmt_t :: "bool \<Rightarrow> string" where
  "fmt_t b = (if b then ''true'' else ''false'')"

text \<open>\<open>digit\<close> is only applied to numbers below ten.\<close>

definition digit :: "nat \<Rightarrow> char" where
  "digit n = ''0123456789'' ! n"

fun digits :: "nat \<Rightarrow> string" where
  "digits n = (if n < 10 then [digit n] else digits (n div 10) @ [digit (n mod 10)])"

declare digits.simps [simp del]

definition fmt_d :: "int \<Rightarrow> string" where
  "fmt_d i = (if i < 0 then CHR ''-'' # digits (nat (- i)) else digits (nat i))"

fun join_space :: "string list \<Rightarrow> string" where
  "join_space [] = []"
| "join_space [x] = x"
| "join_space (x # y # ys) = x @ '' '' @ join_space (y # ys)"

definition fmt_v :: "strslice \<Rightarrow> string" where
  "fmt_v s = ''['' @ join_space (elems s) @ '']''"

section \<open>internal/config: the policy model\<close>

record Rules =
  RequirePullRequest :: bool
  RequiredApprovals :: int
  DismissStaleReviews :: bool
  RequireCodeOwnerReviews :: bool
  RequireStatusChecks :: bool
  StrictStatusChecks :: bool
  RequiredChecks :: strslice
  EnforceAdmins :: bool
  AllowForcePushes :: bool
  AllowDeletions :: bool
  RequiredLinearHistory :: bool
  RequiredConversationResolution :: bool

record Config =
  Branch :: string
  Rules :: Rules

record RuleDiff =
  Rule :: string
  Pass :: bool
  Want :: string
  Got :: string

text \<open>The zero value \<^verbatim>\<open>Rules{}\<close>: every flag false, the count 0, the slice nil.\<close>

definition zeroRules :: Rules where
  "zeroRules = \<lparr>RequirePullRequest = False, RequiredApprovals = 0,
     DismissStaleReviews = False, RequireCodeOwnerReviews = False,
     RequireStatusChecks = False, StrictStatusChecks = False,
     RequiredChecks = None, EnforceAdmins = False, AllowForcePushes = False,
     AllowDeletions = False, RequiredLinearHistory = False,
     RequiredConversationResolution = False\<rparr>"

definition Default :: Config where
  "Default = \<lparr>Branch = ''main'',
     Rules = \<lparr>RequirePullRequest = True, RequiredApprovals = 1,
       DismissStaleReviews = True, RequireCodeOwnerReviews = False,
       RequireStatusChecks = False, StrictStatusChecks = True,
       RequiredChecks = Some [], EnforceAdmins = True, AllowForcePushes = False,
       AllowDeletions = False, RequiredLinearHistory = False,
       RequiredConversationResolution = False\<rparr>\<rparr>"

subsection \<open>Compare\<close>

text \<open>
  The closures \<^verbatim>\<open>addDiff\<close> and \<^verbatim>\<open>addBoolDiff\<close> append to the captured slice
  \<^verbatim>\<open>diffs\<close>; here the slice is passed in and returned.
\<close>

definition addDiff :: "RuleDiff list \<Rightarrow> string \<Rightarrow> bool \<Rightarrow> string \<Rightarrow> string \<Rightarrow> RuleDiff list" where
  "addDiff diffs rule pass want got =
     diffs @ [\<lparr>Rule = rule, Pass = pass, Want = want, Got = got\<rparr>]"

definition addBoolDiff :: "RuleDiff list \<Rightarrow> string \<Rightarrow> bool \<Rightarrow> bool \<Rightarrow> RuleDiff list" where
  "addBoolDiff diffs rule want got = addDiff diffs rule (want = got) (fmt_t want) (fmt_t got)"

text \<open>
  A \<^verbatim>\<open>map[string]bool\<close> is a partial map; reading a missing key gives \<^verbatim>\<open>false\<close>.
\<close>

definition lookup :: "(string \<rightharpoonup> bool) \<Rightarrow> string \<Rightarrow> bool" where
  "lookup m k = (case m k of None \<Rightarrow> False | Some b \<Rightarrow> b)"

text \<open>\<^verbatim>\<open>for _, c := range desired.RequiredChecks { desiredSet[c] = true }\<close>\<close>

fun fillSet :: "(string \<rightharpoonup> bool) \<Rightarrow> string list \<Rightarrow> (string \<rightharpoonup> bool)" where
  "fillSet desiredSet [] = desiredSet"
| "fillSet desiredSet (c # cs) = fillSet (desiredSet(c \<mapsto> True)) cs"

text \<open>
  \<^verbatim>\<open>for _, c := range actual.RequiredChecks { if !desiredSet[c] { checksMatch = false; break } }\<close>,
  entered with \<^verbatim>\<open>checksMatch\<close> true; the result is the final \<^verbatim>\<open>checksMatch\<close>.
\<close>

fun scanActual :: "(string \<rightharpoonup> bool) \<Rightarrow> string list \<Rightarrow> bool" where
  "scanActual desiredSet [] = True"
| "scanActual desiredSet (c # cs) =
     (if \<not> lookup desiredSet c then False else scanActual desiredSet cs)"

definition checksMatch :: "strslice \<Rightarrow> strslice \<Rightarrow> bool" where
  "checksMatch desiredChecks actualChecks =
     (if len desiredChecks = len actualChecks
      then scanActual (fillSet Map.empty (elems desiredChecks)) (elems actualChecks)
      else False)"

definition Compare :: "Rules \<Rightarrow> Rules \<Rightarrow> RuleDiff list" where
  "Compare desired actual =
    (let diffs = [];
         diffs = addBoolDiff diffs ''require_pull_request''
                   (RequirePullRequest desired) (RequirePullRequest actual);
         diffs = (if RequirePullRequest desired then
                    (let approvalPass = (RequiredApprovals desired = RequiredApprovals actual);
                         diffs = addDiff diffs ''required_approvals'' approvalPass
                                   (fmt_d (RequiredApprovals desired))
                                   (fmt_d (RequiredApprovals actual));
                         diffs = addBoolDiff diffs ''dismiss_stale_reviews''
                                   (DismissStaleReviews desired) (DismissStaleReviews actual)
                     in addBoolDiff diffs ''require_code_owner_reviews''
                          (RequireCodeOwnerReviews desired) (RequireCodeOwnerReviews actual))
                  else diffs);
         diffs = addBoolDiff diffs ''require_status_checks''
                   (RequireStatusChecks desired) (RequireStatusChecks actual);
         diffs = (if RequireStatusChecks desired then
                    (let diffs = addBoolDiff diffs ''strict_status_checks''
                                   (StrictStatusChecks desired) (StrictStatusChecks actual)
                     in addDiff diffs ''required_checks''
                          (checksMatch (RequiredChecks desired) (RequiredChecks actual))
                          (fmt_v (RequiredChecks desired)) (fmt_v (RequiredChecks actual)))
                  else diffs);
         diffs = addBoolDiff diffs ''enforce_admins''
                   (EnforceAdmins desired) (EnforceAdmins actual);
         diffs = addBoolDiff diffs ''allow_force_pushes''
                   (AllowForcePushes desired) (AllowForcePushes actual);
         diffs = addBoolDiff diffs ''allow_deletions''
                   (AllowDeletions desired) (AllowDeletions actual);
         diffs = addBoolDiff diffs ''required_linear_history''
                   (RequiredLinearHistory desired) (RequiredLinearHistory actual)
     in addBoolDiff diffs ''required_conversation_resolution''
          (RequiredConversationResolution desired) (RequiredConversationResolution actual))"

subsection \<open>ToAPIPayload\<close>

text \<open>
  The payload is a \<^verbatim>\<open>map[string]interface{}\<close>. Its values are the dynamic values
  the function stores: the nil interface, booleans, the approval count, the slice of check
  names, a nested map, and the slice of \<^verbatim>\<open>map[string]string\<close> built for \<^verbatim>\<open>"checks"\<close>.
\<close>

datatype goval =
    GoNil
  | GoBool bool
  | GoInt int
  | GoStrings strslice
  | GoMap "string \<rightharpoonup> goval"
  | GoStringMaps "(string \<rightharpoonup> string) list"

definition ToAPIPayload :: "Rules \<Rightarrow> (string \<rightharpoonup> goval)" where
  "ToAPIPayload r =
    (let payload = [''enforce_admins'' \<mapsto> GoBool (EnforceAdmins r),
                    ''allow_force_pushes'' \<mapsto> GoBool (AllowForcePushes r),
                    ''allow_deletions'' \<mapsto> GoBool (AllowDeletions r),
                    ''required_linear_history'' \<mapsto> GoBool (RequiredLinearHistory r),
                    ''required_conversation_resolution'' \<mapsto>
                       GoBool (RequiredConversationResolution r),
                    ''restrictions'' \<mapsto> GoNil];
         payload = (if RequirePullRequest r then
                      (let reviews = [''required_approving_review_count'' \<mapsto>
                                         GoInt (RequiredApprovals r),
                                      ''dismiss_stale_reviews'' \<mapsto>
                                         GoBool (DismissStaleReviews r),
                                      ''require_code_owner_reviews'' \<mapsto>
                                         GoBool (RequireCodeOwnerReviews r)]
                       in payload(''required_pull_request_reviews'' \<mapsto> GoMap reviews))
                    else payload(''required_pull_request_reviews'' \<mapsto> GoNil))
     in (if RequireStatusChecks r then
           (let checks = map (\<lambda>c. [''context'' \<mapsto> c]) (elems (RequiredChecks r))
            in payload(''required_status_checks'' \<mapsto>
                 GoMap [''strict'' \<mapsto> GoBool (StrictStatusChecks r),
                        ''contexts'' \<mapsto> GoStrings (RequiredChecks r),
                        ''checks'' \<mapsto> GoStringMaps checks]))
         else payload(''required_status_checks'' \<mapsto> GoNil)))"

subsection \<open>ProtectionResponse and RulesFromResponse\<close>

text \<open>
  The two pointer-to-struct fields are options (\<open>None\<close> is the nil pointer, which the
  decoder leaves for a JSON null or a missing key). The five embedded one-field structs
  are flattened: \<^verbatim>\<open>resp.EnforceAdmins.Enabled\<close> is \<open>EnforceAdmins_Enabled resp\<close>.
\<close>

record PullRequestReviews =
  RequiredApprovingReviewCount :: int
  DismissStaleReviews_resp :: bool
  RequireCodeOwnerReviews_resp :: bool

record StatusChecks =
  Strict :: bool
  Contexts :: strslice

record ProtectionResponse =
  RequiredPullRequestReviews :: "PullRequestReviews option"
  RequiredStatusChecks :: "StatusChecks option"
  EnforceAdmins_Enabled :: bool
  AllowForcePushes_Enabled :: bool
  AllowDeletions_Enabled :: bool
  RequiredLinearHistory_Enabled :: bool
  RequiredConversationResolution_Enabled :: bool

definition RulesFromResponse :: "ProtectionResponse \<Rightarrow> Rules" where
  "RulesFromResponse resp =
    (let r = zeroRules\<lparr>EnforceAdmins := EnforceAdmins_Enabled resp,
                         AllowForcePushes := AllowForcePushes_Enabled resp,
                         AllowDeletions := AllowDeletions_Enabled resp,
                         RequiredLinearHistory := RequiredLinearHistory_Enabled resp,
                         RequiredConversationResolution :=
                           RequiredConversationResolution_Enabled resp,
                         RequiredChecks := Some []\<rparr>;
         r = (case RequiredPullRequestReviews resp of
                None \<Rightarrow> r
              | Some reviews \<Rightarrow>
                  r\<lparr>RequirePullRequest := True,
                    RequiredApprovals := RequiredApprovingReviewCount reviews,
                    DismissStaleReviews := DismissStaleReviews_resp reviews,
                    RequireCodeOwnerReviews := RequireCodeOwnerReviews_resp reviews\<rparr>)
     in (case RequiredStatusChecks resp of
           None \<Rightarrow> r
         | Some checks \<Rightarrow>
             (let r = r\<lparr>RequireStatusChecks := True, StrictStatusChecks := Strict checks\<rparr>
              in if Contexts checks \<noteq> None then r\<lparr>RequiredChecks := Contexts checks\<rparr>
                 else r)))"

subsection \<open>Load\<close>

text \<open>
  Everything outside the program is one record: the \<^verbatim>\<open>gh\<close> command line tool (from
  its argument list to what \<^verbatim>\<open>cmd.Output()\<close> returns), \<^verbatim>\<open>os.ReadFile\<close>, and the YAML and
  JSON decoders at the three types they are used at. Each is a function of its arguments,
  so a run sees one fixed remote state. \<open>GetCurrentUser\<close> is the result of
  \<^verbatim>\<open>github.GetCurrentUser()\<close>, which only supplies the owner when the flag is empty; it is
  taken as given. A Go \<^verbatim>\<open>error\<close> is its message; where a function returns
  \<^verbatim>\<open>(value, error)\<close> the model returns a sum, \<open>Inl\<close> holding the message.
\<close>

datatype cmd_result =
    Output string       \<comment> \<open>the command exited with status 0; its standard output\<close>
  | ExitError string    \<comment> \<open>an \<^verbatim>\<open>*exec.ExitError\<close>; its \<^verbatim>\<open>Stderr\<close>\<close>
  | RunError string     \<comment> \<open>any other error of \<^verbatim>\<open>cmd.Output()\<close>; its message\<close>

record Repo =
  Name :: string
  Fork :: bool
  Archived :: bool
  DefaultBranch :: string

record World =
  gh :: "string list \<Rightarrow> cmd_result"
  ReadFile :: "string \<Rightarrow> string + string"
  yaml_Unmarshal :: "string \<Rightarrow> string + Config"
  json_Unmarshal_repos :: "string \<Rightarrow> string + Repo list"
  json_Unmarshal_protection :: "string \<Rightarrow> string + ProtectionResponse"
  GetCurrentUser :: "string + string"

definition Load :: "World \<Rightarrow> string \<Rightarrow> string + Config" where
  "Load w path =
    (case ReadFile w path of
       Inl err \<Rightarrow> Inl (''failed to read config: '' @ err)
     | Inr data \<Rightarrow>
        (case yaml_Unmarshal w data of
           Inl err \<Rightarrow> Inl (''failed to parse config: '' @ err)
         | Inr cfg \<Rightarrow>
            (let cfg = (if Branch cfg = [] then cfg\<lparr>Branch := ''main''\<rparr> else cfg);
                 cfg = (if RequiredChecks (Rules cfg) = None
                        then cfg\<lparr>Rules := (Rules cfg)\<lparr>RequiredChecks := Some []\<rparr>\<rparr>
                        else cfg)
             in Inr cfg)))"

section \<open>internal/github: calls through the gh command line tool\<close>

definition listReposFromEndpoint :: "World \<Rightarrow> string \<Rightarrow> string + Repo list" where
  "listReposFromEndpoint w endpoint =
    (case gh w [''api'', endpoint, ''--paginate''] of
       ExitError stderr \<Rightarrow> Inl (''gh api failed: '' @ stderr)
     | RunError err \<Rightarrow> Inl (''failed to run gh: '' @ err)
     | Output output \<Rightarrow>
        (case json_Unmarshal_repos w output of
           Inl err \<Rightarrow> Inl (''failed to parse repos: '' @ err)
         | Inr repos \<Rightarrow> Inr repos))"

definition ListRepos :: "World \<Rightarrow> string \<Rightarrow> string + Repo list" where
  "ListRepos w owner =
    (let tried = (case listReposFromEndpoint w
                         (''users/'' @ owner @ ''/repos?type=owner&per_page=100'') of
                    Inr repos \<Rightarrow> Inr repos
                  | Inl _ \<Rightarrow>
                     (case listReposFromEndpoint w (''orgs/'' @ owner @ ''/repos?per_page=100'') of
                        Inr repos \<Rightarrow> Inr repos
                      | Inl err \<Rightarrow>
                          Inl (''failed to list repos for '' @ owner @ '': '' @ err)))
     in (case tried of
           Inl err \<Rightarrow> Inl err
         | Inr repos \<Rightarrow> Inr (filter (\<lambda>r. \<not> Fork r \<and> \<not> Archived r) repos)))"

text \<open>
  \<^verbatim>\<open>GetBranchProtection\<close> returns \<^verbatim>\<open>(config.Rules, bool, error)\<close>; the model keeps the
  three results, the error being \<open>None\<close> for nil.
\<close>

definition GetBranchProtection ::
  "World \<Rightarrow> string \<Rightarrow> string \<Rightarrow> string \<Rightarrow> Rules \<times> bool \<times> string option" where
  "GetBranchProtection w owner repo branch =
    (let endpoint = ''repos/'' @ owner @ ''/'' @ repo @ ''/branches/'' @ branch @ ''/protection''
     in case gh w [''api'', endpoint] of
          ExitError stderr \<Rightarrow>
            (if Contains stderr ''404'' \<or> Contains stderr ''Not Found'' \<or>
                Contains stderr ''Branch not protected''
             then (zeroRules\<lparr>RequiredChecks := Some []\<rparr>, True, None)
             else if Contains stderr ''403'' \<or> Contains stderr ''Must have admin''
             then (zeroRules, False, Some ''insufficient permissions'')
             else (zeroRules, False, Some (''gh api failed: '' @ stderr)))
        | RunError err \<Rightarrow> (zeroRules, False, Some (''failed to run gh: '' @ err))
        | Output output \<Rightarrow>
            (case json_Unmarshal_protection w output of
               Inl err \<Rightarrow>
                 (zeroRules, False, Some (''failed to parse protection response: '' @ err))
             | Inr resp \<Rightarrow> (RulesFromResponse resp, True, None)))"

section \<open>internal/cli: the audit engine and the audit command\<close>

record RepoAuditResult =
  Repo :: string
  Compliant :: bool
  Diffs :: "RuleDiff list"
  Error :: string
  Skipped :: bool

text \<open>
  \<^verbatim>\<open>for _, d := range diffs { if !d.Pass { compliant = false; break } }\<close>, entered with
  \<^verbatim>\<open>compliant\<close> true.
\<close>

fun allPass :: "RuleDiff list \<Rightarrow> bool" where
  "allPass [] = True"
| "allPass (d # ds) = (if \<not> Pass d then False else allPass ds)"

text \<open>
  The body of the loop over \<^verbatim>\<open>repos\<close> in \<^verbatim>\<open>auditRepos\<close>: every path through it
  appends exactly one result, which is what \<open>auditRepo\<close> returns. Fields that a
  composite literal leaves out hold their zero value.
\<close>

definition auditRepo ::
  "World \<Rightarrow> string \<Rightarrow> Config \<Rightarrow> (string \<rightharpoonup> bool) \<Rightarrow> Repo \<Rightarrow> RepoAuditResult" where
  "auditRepo w owner cfg excludeSet r =
    (if lookup excludeSet (Name r)
     then \<lparr>Repo = Name r, Compliant = False, Diffs = [], Error = ''excluded'', Skipped = True\<rparr>
     else
      (case GetBranchProtection w owner (Name r) (Branch cfg) of
         (actual, ok, err) \<Rightarrow>
          (case err of
             Some msg \<Rightarrow>
               \<lparr>Repo = Name r, Compliant = False, Diffs = [], Error = msg, Skipped = False\<rparr>
           | None \<Rightarrow>
              (if \<not> ok
               then \<lparr>Repo = Name r, Compliant = False, Diffs = [],
                      Error = ''insufficient permissions'', Skipped = True\<rparr>
               else
                (let diffs = Compare (Rules cfg) actual;
                     compliant = allPass diffs
                 in \<lparr>Repo = Name r, Compliant = compliant, Diffs = diffs,
                      Error = [], Skipped = False\<rparr>)))))"

fun auditLoop ::
  "World \<Rightarrow> string \<Rightarrow> Config \<Rightarrow> (string \<rightharpoonup> bool) \<Rightarrow> RepoAuditResult list \<Rightarrow> Repo list
     \<Rightarrow> RepoAuditResult list" where
  "auditLoop w owner cfg excludeSet results [] = results"
| "auditLoop w owner cfg excludeSet results (r # repos) =
     auditLoop w owner cfg excludeSet (results @ [auditRepo w owner cfg excludeSet r]) repos"

text \<open>
  \<^verbatim>\<open>auditRepos\<close>. \<open>Inl\<close> is \<^verbatim>\<open>exitWithError\<close>: the message goes to standard error and
  the process exits with status 1. The exclude set is filled by the same loop shape as the
  set of desired checks.
\<close>

definition auditRepos ::
  "World \<Rightarrow> string \<Rightarrow> string \<Rightarrow> string \<Rightarrow> string list
     \<Rightarrow> string + (RepoAuditResult list \<times> Config)" where
  "auditRepos w owner repo configPath exclude =
    (case Load w configPath of
       Inl err \<Rightarrow> Inl err
     | Inr cfg \<Rightarrow>
        (case (if repo \<noteq> []
               then Inr [\<lparr>Name = repo, Fork = False, Archived = False, DefaultBranch = []\<rparr>]
               else ListRepos w owner) of
           Inl err \<Rightarrow> Inl err
         | Inr repos \<Rightarrow>
            (let excludeSet = fillSet Map.empty exclude
             in Inr (auditLoop w owner cfg excludeSet [] repos, cfg))))"

text \<open>
  The audit command. Its flags are a record; what it prints is kept as the results it
  prints one line for and the four counters of the summary line.
\<close>

record Flags =
  owner_flag :: string
  repo_flag :: string
  exclude_flag :: "string list"
  config_flag :: string

text \<open>The first loop over the results: the running \<^verbatim>\<open>nonCompliant\<close> counter.\<close>

fun countNonCompliant :: "int \<Rightarrow> RepoAuditResult list \<Rightarrow> int" where
  "countNonCompliant n [] = n"
| "countNonCompliant n (r # rs) =
     (if Skipped r then countNonCompliant n rs
      else if Error r \<noteq> [] then countNonCompliant (n + 1) rs
      else if Compliant r then countNonCompliant n rs
      else countNonCompliant (n + 1) rs)"

text \<open>The second loop: \<^verbatim>\<open>if r.Skipped { skipped++; compliant-- }\<close>.\<close>

fun countSkipped :: "int \<times> int \<Rightarrow> RepoAuditResult list \<Rightarrow> int \<times> int" where
  "countSkipped (skipped, compliant) [] = (skipped, compliant)"
| "countSkipped (skipped, compliant) (r # rs) =
     (if Skipped r then countSkipped (skipped + 1, compliant - 1) rs
      else countSkipped (skipped, compliant) rs)"

record Summary =
  sum_compliant :: int
  sum_nonCompliant :: int
  sum_skipped :: int
  sum_total :: int

definition summarise :: "RepoAuditResult list \<Rightarrow> Summary" where
  "summarise results =
    (let nonCompliant = countNonCompliant 0 results;
         total = int (length results);
         compliant = total - nonCompliant
     in case countSkipped (0, compliant) results of
          (skipped, compliant) \<Rightarrow>
            \<lparr>sum_compliant = compliant, sum_nonCompliant = nonCompliant,
             sum_skipped = skipped, sum_total = total\<rparr>)"

datatype outcome =
    Fatal string                            \<comment> \<open>\<^verbatim>\<open>exitWithError\<close>\<close>
  | Reported "RepoAuditResult list" Summary \<comment> \<open>the run reached the summary line\<close>

definition auditCmd :: "World \<Rightarrow> Flags \<Rightarrow> outcome" where
  "auditCmd w flags =
    (case (if owner_flag flags = [] then GetCurrentUser w else Inr (owner_flag flags)) of
       Inl err \<Rightarrow> Fatal err
     | Inr owner \<Rightarrow>
        (case auditRepos w owner (repo_flag flags) (config_flag flags) (exclude_flag flags) of
           Inl err \<Rightarrow> Fatal err
         | Inr (results, cfg) \<Rightarrow> Reported results (summarise results)))"

text \<open>
  The exit status of the process: \<^verbatim>\<open>exitWithError\<close> and the last statement of the
  command call \<^verbatim>\<open>os.Exit(1)\<close>; otherwise \<^verbatim>\<open>Execute\<close> returns nil and \<^verbatim>\<open>main\<close> ends.
\<close>

definition exitStatus :: "outcome \<Rightarrow> nat" where
  "exitStatus out =
    (case out of
       Fatal err \<Rightarrow> 1
     | Reported results summary \<Rightarrow> (if sum_nonCompliant summary > 0 then 1 else 0))"

section \<open>Concrete runs\<close>

text \<open>
  A world with one owner, \<open>octo\<close>, whose configuration file holds the default policy for
  branch \<open>main\<close>. Of its repositories, \<open>good\<close> is protected as the policy asks, \<open>bare\<close>
  has no protection, \<open>locked\<close> refuses the caller, \<open>broken\<close> fails on the server and
  \<open>forked\<close> is a fork. The contents of files and of standard output are opaque to the
  program (only the decoders read them), so they are placeholders here.
\<close>

definition exampleRepos :: "Repo list" where
  "exampleRepos =
    [\<lparr>Name = ''good'', Fork = False, Archived = False, DefaultBranch = ''main''\<rparr>,
     \<lparr>Name = ''bare'', Fork = False, Archived = False, DefaultBranch = ''main''\<rparr>,
     \<lparr>Name = ''locked'', Fork = False, Archived = False, DefaultBranch = ''main''\<rparr>,
     \<lparr>Name = ''broken'', Fork = False, Archived = False, DefaultBranch = ''main''\<rparr>,
     \<lparr>Name = ''skipme'', Fork = False, Archived = False, DefaultBranch = ''main''\<rparr>,
     \<lparr>Name = ''forked'', Fork = True, Archived = False, DefaultBranch = ''main''\<rparr>]"

definition goodResponse :: ProtectionResponse where
  "goodResponse =
    \<lparr>RequiredPullRequestReviews =
       Some \<lparr>RequiredApprovingReviewCount = 1, DismissStaleReviews_resp = True,
             RequireCodeOwnerReviews_resp = False\<rparr>,
     RequiredStatusChecks = None,
     EnforceAdmins_Enabled = True, AllowForcePushes_Enabled = False,
     AllowDeletions_Enabled = False, RequiredLinearHistory_Enabled = False,
     RequiredConversationResolution_Enabled = False\<rparr>"

definition exampleWorld :: World where
  "exampleWorld =
    \<lparr>gh = (\<lambda>args.
        if args = [''api'', ''users/octo/repos?type=owner&per_page=100'', ''--paginate'']
        then Output ''repos.json''
        else if args = [''api'', ''repos/octo/good/branches/main/protection'']
        then Output ''protection.json''
        else if args = [''api'', ''repos/octo/bare/branches/main/protection'']
        then ExitError ''gh: Branch not protected (HTTP 404)''
        else if args = [''api'', ''repos/octo/locked/branches/main/protection'']
        then ExitError ''gh: Must have admin rights to Repository. (HTTP 403)''
        else ExitError ''gh: Server Error (HTTP 500)''),
     ReadFile = (\<lambda>path. if path = ''rampart.yaml'' then Inr ''rampart.yaml contents''
                       else Inl ''no such file or directory''),
     yaml_Unmarshal = (\<lambda>data. Inr Default),
     json_Unmarshal_repos = (\<lambda>output. Inr exampleRepos),
     json_Unmarshal_protection = (\<lambda>output. Inr goodResponse),
     GetCurrentUser = Inr ''octo''\<rparr>"

definition exampleFlags :: Flags where
  "exampleFlags = \<lparr>owner_flag = [], repo_flag = [], exclude_flag = [''skipme''],
                     config_flag = ''rampart.yaml''\<rparr>"

text \<open>
  A world whose configuration file says \<^verbatim>\<open>branch: default\<close>, the value the README
  documents as standing for each repository's default branch. The one repository, \<open>app\<close>,
  has the default branch \<open>master\<close>, protected as the policy asks, and no branch named
  \<open>default\<close>.
\<close>

definition sentinelWorld :: World where
  "sentinelWorld =
    \<lparr>gh = (\<lambda>args.
        if args = [''api'', ''users/octo/repos?type=owner&per_page=100'', ''--paginate'']
        then Output ''repos.json''
        else if args = [''api'', ''repos/octo/app/branches/master/protection'']
        then Output ''protection.json''
        else ExitError ''gh: Branch not found (HTTP 404)''),
     ReadFile = (\<lambda>path. Inr ''rampart.yaml contents''),
     yaml_Unmarshal = (\<lambda>data. Inr (Default\<lparr>Branch := ''default''\<rparr>)),
     json_Unmarshal_repos = (\<lambda>output.
        Inr [\<lparr>Name = ''app'', Fork = False, Archived = False, DefaultBranch = ''master''\<rparr>]),
     json_Unmarshal_protection = (\<lambda>output. Inr goodResponse),
     GetCurrentUser = Inr ''octo''\<rparr>"

text \<open>The two pairs of check lists of the required-checks example.\<close>

definition checksDesired :: Rules where
  "checksDesired = zeroRules\<lparr>RequireStatusChecks := True, RequiredChecks := Some [''a'', ''b'']\<rparr>"

definition checksReordered :: Rules where
  "checksReordered = zeroRules\<lparr>RequireStatusChecks := True, RequiredChecks := Some [''b'', ''a'']\<rparr>"

definition checksDuplicated :: Rules where
  "checksDuplicated = zeroRules\<lparr>RequireStatusChecks := True, RequiredChecks := Some [''a'', ''a'']\<rparr>"

section \<open>Properties of Compare\<close>

lemma lookup_empty: "lookup Map.empty c = False"
  by (simp add: lookup_def)

lemma lookup_fillSet: "lookup (fillSet m cs) c = (c \<in> set cs \<or> lookup m c)"
  by (induction cs arbitrary: m) (auto simp: lookup_def)

lemma scanActual_iff: "scanActual m cs = (\<forall>c \<in> set cs. lookup m c)"
  by (induction cs) auto

lemma checksMatch_iff:
  "checksMatch d a = (len d = len a \<and> (\<forall>c \<in> set (elems a). c \<in> set (elems d)))"
  by (simp add: checksMatch_def scanActual_iff lookup_fillSet lookup_empty)

lemma Compare_unfold:
  "Compare d a =
     [\<lparr>Rule = ''require_pull_request'', Pass = (RequirePullRequest d = RequirePullRequest a),
       Want = fmt_t (RequirePullRequest d), Got = fmt_t (RequirePullRequest a)\<rparr>] @
     (if RequirePullRequest d then
        [\<lparr>Rule = ''required_approvals'', Pass = (RequiredApprovals d = RequiredApprovals a),
          Want = fmt_d (RequiredApprovals d), Got = fmt_d (RequiredApprovals a)\<rparr>,
         \<lparr>Rule = ''dismiss_stale_reviews'',
          Pass = (DismissStaleReviews d = DismissStaleReviews a),
          Want = fmt_t (DismissStaleReviews d), Got = fmt_t (DismissStaleReviews a)\<rparr>,
         \<lparr>Rule = ''require_code_owner_reviews'',
          Pass = (RequireCodeOwnerReviews d = RequireCodeOwnerReviews a),
          Want = fmt_t (RequireCodeOwnerReviews d), Got = fmt_t (RequireCodeOwnerReviews a)\<rparr>]
      else []) @
     [\<lparr>Rule = ''require_status_checks'',
       Pass = (RequireStatusChecks d = RequireStatusChecks a),
       Want = fmt_t (RequireStatusChecks d), Got = fmt_t (RequireStatusChecks a)\<rparr>] @
     (if RequireStatusChecks d then
        [\<lparr>Rule = ''strict_status_checks'',
          Pass = (StrictStatusChecks d = StrictStatusChecks a),
          Want = fmt_t (StrictStatusChecks d), Got = fmt_t (StrictStatusChecks a)\<rparr>,
         \<lparr>Rule = ''required_checks'',
          Pass = checksMatch (RequiredChecks d) (RequiredChecks a),
          Want = fmt_v (RequiredChecks d), Got = fmt_v (RequiredChecks a)\<rparr>]
      else []) @
     [\<lparr>Rule = ''enforce_admins'', Pass = (EnforceAdmins d = EnforceAdmins a),
       Want = fmt_t (EnforceAdmins d), Got = fmt_t (EnforceAdmins a)\<rparr>,
      \<lparr>Rule = ''allow_force_pushes'', Pass = (AllowForcePushes d = AllowForcePushes a),
       Want = fmt_t (AllowForcePushes d), Got = fmt_t (AllowForcePushes a)\<rparr>,
      \<lparr>Rule = ''allow_deletions'', Pass = (AllowDeletions d = AllowDeletions a),
       Want = fmt_t (AllowDeletions d), Got = fmt_t (AllowDeletions a)\<rparr>,
      \<lparr>Rule = ''required_linear_history'',
       Pass = (RequiredLinearHistory d = RequiredLinearHistory a),
       Want = fmt_t (RequiredLinearHistory d), Got = fmt_t (RequiredLinearHistory a)\<rparr>,
      \<lparr>Rule = ''required_conversation_resolution'',
       Pass = (RequiredConversationResolution d = RequiredConversationResolution a),
       Want = fmt_t (RequiredConversationResolution d),
       Got = fmt_t (RequiredConversationResolution a)\<rparr>]"
  by (simp add: Compare_def addBoolDiff_def addDiff_def Let_def)

lemma Compare_rule_names:
  "map Rule (Compare d a) =
     [''require_pull_request''] @
     (if RequirePullRequest d
      then [''required_approvals'', ''dismiss_stale_reviews'', ''require_code_owner_reviews'']
      else []) @
     [''require_status_checks''] @
     (if RequireStatusChecks d then [''strict_status_checks'', ''required_checks''] else []) @
     [''enforce_admins'', ''allow_force_pushes'', ''allow_deletions'',
      ''required_linear_history'', ''required_conversation_resolution'']"
  by (simp add: Compare_unfold)

lemma Compare_wants:
  "map Want (Compare d a) = map Want (Compare d a')"
  by (simp add: Compare_unfold)

lemma allPass_iff: "allPass ds = (\<forall>d \<in> set ds. Pass d)"
  by (induction ds) auto

lemma required_checks_diff:
  "RequireStatusChecks d \<Longrightarrow>
     filter (\<lambda>x. Rule x = ''required_checks'') (Compare d a) =
       [\<lparr>Rule = ''required_checks'', Pass = checksMatch (RequiredChecks d) (RequiredChecks a),
         Want = fmt_v (RequiredChecks d), Got = fmt_v (RequiredChecks a)\<rparr>]"
  by (simp add: Compare_unfold)

lemma required_checks_member:
  assumes "RequireStatusChecks d"
  shows "(x \<in> set (Compare d a) \<and> Rule x = ''required_checks'') =
         (x = \<lparr>Rule = ''required_checks'',
                Pass = checksMatch (RequiredChecks d) (RequiredChecks a),
                Want = fmt_v (RequiredChecks d), Got = fmt_v (RequiredChecks a)\<rparr>)"
proof -
  have "(x \<in> set (Compare d a) \<and> Rule x = ''required_checks'') =
        (x \<in> set (filter (\<lambda>x. Rule x = ''required_checks'') (Compare d a)))"
    by simp
  also have "\<dots> = (x = \<lparr>Rule = ''required_checks'',
                Pass = checksMatch (RequiredChecks d) (RequiredChecks a),
                Want = fmt_v (RequiredChecks d), Got = fmt_v (RequiredChecks a)\<rparr>)"
    by (simp only: required_checks_diff [OF assms] list.set insert_iff empty_iff simp_thms)
  finally show ?thesis .
qed

section \<open>Properties of the audit engine\<close>

lemma fmt_d_1: "fmt_d 1 = ''1''"
  by (simp add: fmt_d_def digits.simps digit_def)

lemma fmt_d_0: "fmt_d 0 = ''0''"
  by (simp add: fmt_d_def digits.simps digit_def)

lemma auditLoop_append:
  "auditLoop w owner cfg excludeSet results repos =
     results @ map (auditRepo w owner cfg excludeSet) repos"
  by (induction repos arbitrary: results) simp_all

lemma countNonCompliant_eq:
  "countNonCompliant n rs =
     n + int (length (filter (\<lambda>r. \<not> Skipped r \<and> (Error r \<noteq> [] \<or> \<not> Compliant r)) rs))"
  by (induction rs arbitrary: n) simp_all

lemma GetBranchProtection_ok_iff:
  "GetBranchProtection w owner repo branch = (rules, ok, err) \<Longrightarrow> ok = (err = None)"
  by (auto simp: GetBranchProtection_def Let_def split: cmd_result.splits sum.splits if_splits)

lemma sum_nonCompliant_summarise:
  "sum_nonCompliant (summarise results) = countNonCompliant 0 results"
  by (simp add: summarise_def Let_def split: prod.splits)

lemma auditRepo_ignores_DefaultBranch:
  assumes "Name r = Name r'"
  shows "auditRepo w owner cfg excludeSet r = auditRepo w owner cfg excludeSet r'"
  unfolding auditRepo_def assms by (rule refl)

lemma auditRepo_Skipped_only_excluded:
  assumes "Skipped (auditRepo w owner cfg excludeSet r)"
  shows "lookup excludeSet (Name r) \<and> Error (auditRepo w owner cfg excludeSet r) = ''excluded''"
proof (cases "lookup excludeSet (Name r)")
  case True
  then show ?thesis by (simp add: auditRepo_def)
next
  case False
  obtain actual ok err where
    g: "GetBranchProtection w owner (Name r) (Branch cfg) = (actual, ok, err)"
    by (cases "GetBranchProtection w owner (Name r) (Branch cfg)") auto
  have "ok = (err = None)"
    using g by (rule GetBranchProtection_ok_iff)
  then have "\<not> Skipped (auditRepo w owner cfg excludeSet r)"
    using False g by (cases err) (simp_all add: auditRepo_def Let_def)
  with assms show ?thesis by simp
qed

lemma auditRepo_forbidden:
  assumes "gh w [''api'', ''repos/'' @ owner @ ''/'' @ Name r @ ''/branches/'' @ Branch cfg @
                          ''/protection''] = ExitError stderr"
    and "\<not> (Contains stderr ''404'' \<or> Contains stderr ''Not Found'' \<or>
             Contains stderr ''Branch not protected'')"
    and "Contains stderr ''403'' \<or> Contains stderr ''Must have admin''"
    and "\<not> lookup excludeSet (Name r)"
  shows "auditRepo w owner cfg excludeSet r =
           \<lparr>Repo = Name r, Compliant = False, Diffs = [],
            Error = ''insufficient permissions'', Skipped = False\<rparr>"
  using assms by (simp add: auditRepo_def GetBranchProtection_def)

lemma auditRepo_not_found:
  assumes "gh w [''api'', ''repos/'' @ owner @ ''/'' @ Name r @ ''/branches/'' @ Branch cfg @
                          ''/protection''] = ExitError stderr"
    and "Contains stderr ''404'' \<or> Contains stderr ''Not Found'' \<or>
         Contains stderr ''Branch not protected''"
    and "\<not> lookup excludeSet (Name r)"
  shows "auditRepo w owner cfg excludeSet r =
           \<lparr>Repo = Name r,
            Compliant = allPass (Compare (Rules cfg) (zeroRules\<lparr>RequiredChecks := Some []\<rparr>)),
            Diffs = Compare (Rules cfg) (zeroRules\<lparr>RequiredChecks := Some []\<rparr>),
            Error = [], Skipped = False\<rparr>"
  using assms by (simp add: auditRepo_def GetBranchProtection_def Let_def)

lemma enforce_admins_diff_baseline:
  "EnforceAdmins d \<Longrightarrow>
     \<lparr>Rule = ''enforce_admins'', Pass = False, Want = ''true'', Got = ''false''\<rparr>
       \<in> set (Compare d (zeroRules\<lparr>RequiredChecks := Some []\<rparr>))"
  by (simp add: Compare_unfold zeroRules_def fmt_t_def)

lemmas run_defs =
  auditCmd_def auditRepos_def Load_def ListRepos_def listReposFromEndpoint_def
  GetBranchProtection_def auditRepo_def RulesFromResponse_def zeroRules_def Default_def
  goodResponse_def lookup_def Compare_unfold fmt_t_def fmt_d_1 fmt_d_0 fmt_v_def elems_def
  summarise_def exitStatus_def Let_def

lemma example_run:
  "auditCmd exampleWorld exampleFlags =
     Reported
       [\<lparr>Repo = ''good'', Compliant = True, Diffs = Compare (Rules Default) (RulesFromResponse goodResponse),
         Error = [], Skipped = False\<rparr>,
        \<lparr>Repo = ''bare'', Compliant = False, Diffs = Compare (Rules Default) (zeroRules\<lparr>RequiredChecks := Some []\<rparr>),
         Error = [], Skipped = False\<rparr>,
        \<lparr>Repo = ''locked'', Compliant = False, Diffs = [],
         Error = ''insufficient permissions'', Skipped = False\<rparr>,
        \<lparr>Repo = ''broken'', Compliant = False, Diffs = [],
         Error = ''gh api failed: gh: Server Error (HTTP 500)'', Skipped = False\<rparr>,
        \<lparr>Repo = ''skipme'', Compliant = False, Diffs = [], Error = ''excluded'',
         Skipped = True\<rparr>]
       \<lparr>sum_compliant = 1, sum_nonCompliant = 3, sum_skipped = 1, sum_total = 5\<rparr>"
  by (simp add: run_defs exampleWorld_def exampleFlags_def exampleRepos_def)

section \<open>The default policy and the remote payload\<close>

text \<open>
  C4 (as amended). \<open>Default\<close> returns a fixed baseline: a pull request is required,
  with 1 approval, stale reviews are dismissed, admins are included, the list of checks is
  empty (and not nil), \<open>StrictStatusChecks\<close> is true, and every other flag is false:
  \<open>RequireCodeOwnerReviews\<close>, \<open>RequireStatusChecks\<close>, \<open>AllowForcePushes\<close>,
  \<open>AllowDeletions\<close>, \<open>RequiredLinearHistory\<close> and \<open>RequiredConversationResolution\<close>.
  The branch is \<open>main\<close>.
\<close>

theorem Default_rules:
  "Rules Default =
     \<lparr>RequirePullRequest = True, RequiredApprovals = 1, DismissStaleReviews = True,
      RequireCodeOwnerReviews = False, RequireStatusChecks = False,
      StrictStatusChecks = True, RequiredChecks = Some [], EnforceAdmins = True,
      AllowForcePushes = False, AllowDeletions = False, RequiredLinearHistory = False,
      RequiredConversationResolution = False\<rparr> \<and>
   Branch Default = ''main''"
  by (simp add: Default_def)

text \<open>
  C4 as stated lists \<open>StrictStatusChecks\<close> among the fields that are false. The
  default policy sets it, so the rule set the claim describes is not the one returned.
\<close>

theorem Default_strict_status_checks_counterexample:
  "StrictStatusChecks (Rules Default) \<and>
   Rules Default \<noteq>
     \<lparr>RequirePullRequest = True, RequiredApprovals = 1, DismissStaleReviews = True,
      RequireCodeOwnerReviews = False, RequireStatusChecks = False,
      StrictStatusChecks = False, RequiredChecks = Some [], EnforceAdmins = True,
      AllowForcePushes = False, AllowDeletions = False, RequiredLinearHistory = False,
      RequiredConversationResolution = False\<rparr>"
  by (simp add: Default_def)

text \<open>
  C9. A rule set that does not require status checks is sent with the key
  \<open>required_status_checks\<close> present and holding the nil value, which the encoder writes
  as null; and a response whose \<open>required_status_checks\<close> is null or missing is read as a
  rule set that does not require status checks and whose list of checks is the empty,
  non-nil slice.
\<close>

theorem status_checks_null_round_trip:
  "(\<not> RequireStatusChecks r \<longrightarrow> ToAPIPayload r ''required_status_checks'' = Some GoNil) \<and>
   (RequiredStatusChecks resp = None \<longrightarrow>
      \<not> RequireStatusChecks (RulesFromResponse resp) \<and>
      RequiredChecks (RulesFromResponse resp) = Some [])"
proof (intro conjI impI)
  assume "\<not> RequireStatusChecks r"
  then show "ToAPIPayload r ''required_status_checks'' = Some GoNil"
    by (simp add: ToAPIPayload_def Let_def)
next
  assume n: "RequiredStatusChecks resp = None"
  show "\<not> RequireStatusChecks (RulesFromResponse resp)"
    by (simp add: RulesFromResponse_def Let_def n zeroRules_def split: option.splits)
  show "RequiredChecks (RulesFromResponse resp) = Some []"
    by (simp add: RulesFromResponse_def Let_def n zeroRules_def split: option.splits)
qed

theorem status_checks_null_round_trip_witness:
  "\<not> RequireStatusChecks (Rules Default) \<and>
   ToAPIPayload (Rules Default) ''required_status_checks'' = Some GoNil \<and>
   RequiredStatusChecks goodResponse = None \<and>
   \<not> RequireStatusChecks (RulesFromResponse goodResponse) \<and>
   RequiredChecks (RulesFromResponse goodResponse) = Some []"
proof -
  have h1: "\<not> RequireStatusChecks (Rules Default)"
    by (simp add: Default_def)
  have h2: "RequiredStatusChecks goodResponse = None"
    by (simp add: goodResponse_def)
  from status_checks_null_round_trip [of "Rules Default" goodResponse] h1 h2
  show ?thesis by blast
qed

section \<open>The order of the diffs\<close>

text \<open>
  C7. For every desired and actual rule set, the rule names of the diffs that \<open>Compare\<close>
  returns are, in this order: \<open>require_pull_request\<close>; if the desired side requires a
  pull request, \<open>required_approvals\<close>, \<open>dismiss_stale_reviews\<close> and
  \<open>require_code_owner_reviews\<close>; \<open>require_status_checks\<close>; if the desired side requires
  status checks, \<open>strict_status_checks\<close> and \<open>required_checks\<close>; then \<open>enforce_admins\<close>,
  \<open>allow_force_pushes\<close>, \<open>allow_deletions\<close>, \<open>required_linear_history\<close> and
  \<open>required_conversation_resolution\<close>.
\<close>

theorem Compare_fixed_order:
  "map Rule (Compare desired actual) =
     [''require_pull_request''] @
     (if RequirePullRequest desired
      then [''required_approvals'', ''dismiss_stale_reviews'', ''require_code_owner_reviews'']
      else []) @
     [''require_status_checks''] @
     (if RequireStatusChecks desired
      then [''strict_status_checks'', ''required_checks'']
      else []) @
     [''enforce_admins'', ''allow_force_pushes'', ''allow_deletions'',
      ''required_linear_history'', ''required_conversation_resolution'']"
  by (rule Compare_rule_names)

theorem Compare_fixed_order_witness:
  "map Rule (Compare (Rules Default) (RulesFromResponse goodResponse)) =
     [''require_pull_request'', ''required_approvals'', ''dismiss_stale_reviews'',
      ''require_code_owner_reviews'', ''require_status_checks'', ''enforce_admins'',
      ''allow_force_pushes'', ''allow_deletions'', ''required_linear_history'',
      ''required_conversation_resolution'']"
  using Compare_fixed_order [of "Rules Default" "RulesFromResponse goodResponse"]
  by (simp add: Default_def)

text \<open>
  C10. Which rule names \<open>Compare\<close> emits, and in which order, is the same for any two
  desired rule sets that agree on \<open>RequirePullRequest\<close> and \<open>RequireStatusChecks\<close>,
  whatever the actual sides are; for one desired rule set the actual side changes neither
  the rule names nor the wanted values; and the number of diffs is 7, plus 3 when the
  desired side requires a pull request, plus 2 when it requires status checks.
\<close>

theorem Compare_shape_from_desired:
  "(RequirePullRequest d = RequirePullRequest d' \<and>
    RequireStatusChecks d = RequireStatusChecks d' \<longrightarrow>
      map Rule (Compare d a) = map Rule (Compare d' a')) \<and>
   map Rule (Compare d a) = map Rule (Compare d a') \<and>
   map Want (Compare d a) = map Want (Compare d a') \<and>
   length (Compare d a) =
     7 + (if RequirePullRequest d then 3 else 0) + (if RequireStatusChecks d then 2 else 0)"
proof (intro conjI impI)
  assume "RequirePullRequest d = RequirePullRequest d' \<and>
          RequireStatusChecks d = RequireStatusChecks d'"
  then show "map Rule (Compare d a) = map Rule (Compare d' a')"
    by (simp add: Compare_rule_names)
next
  show "map Rule (Compare d a) = map Rule (Compare d a')"
    by (simp add: Compare_rule_names)
next
  show "map Want (Compare d a) = map Want (Compare d a')"
    by (rule Compare_wants)
next
  have "length (Compare d a) = length (map Rule (Compare d a))"
    by simp
  also have "\<dots> = 7 + (if RequirePullRequest d then 3 else 0) +
                      (if RequireStatusChecks d then 2 else 0)"
    by (simp only: Compare_rule_names) simp
  finally show "length (Compare d a) = 7 + (if RequirePullRequest d then 3 else 0) +
                      (if RequireStatusChecks d then 2 else 0)" .
qed

theorem Compare_shape_from_desired_witness:
  "RequirePullRequest checksDesired = RequirePullRequest checksReordered \<and>
   RequireStatusChecks checksDesired = RequireStatusChecks checksReordered \<and>
   map Rule (Compare checksDesired zeroRules) = map Rule (Compare checksReordered (Rules Default)) \<and>
   length (Compare checksDesired zeroRules) = 9"
proof -
  have h: "RequirePullRequest checksDesired = RequirePullRequest checksReordered \<and>
           RequireStatusChecks checksDesired = RequireStatusChecks checksReordered"
    by (simp add: checksDesired_def checksReordered_def)
  have v: "RequireStatusChecks checksDesired \<and> \<not> RequirePullRequest checksDesired"
    by (simp add: checksDesired_def zeroRules_def)
  from Compare_shape_from_desired [of checksDesired checksReordered zeroRules "Rules Default"] h v
  show ?thesis by simp
qed

section \<open>The required-checks comparison\<close>

text \<open>
  C5. When the desired rule set requires status checks, \<open>Compare\<close> returns exactly one
  diff named \<open>required_checks\<close>, and it passes if and only if the two check lists have
  the same length and every element of the actual list is an element of the desired list.
  Nothing asks that every desired element occurs in the actual list, and duplicates are
  kept.
\<close>

theorem required_checks_pass_iff:
  assumes "RequireStatusChecks desired"
  shows "(\<exists>!d. d \<in> set (Compare desired actual) \<and> Rule d = ''required_checks'') \<and>
     (\<forall>d \<in> set (Compare desired actual). Rule d = ''required_checks'' \<longrightarrow>
        Pass d = (len (RequiredChecks desired) = len (RequiredChecks actual) \<and>
                  (\<forall>c \<in> set (elems (RequiredChecks actual)).
                      c \<in> set (elems (RequiredChecks desired)))))"
proof (intro conjI ballI impI)
  show "\<exists>!d. d \<in> set (Compare desired actual) \<and> Rule d = ''required_checks''"
    by (simp only: required_checks_member [OF assms]) blast
next
  fix d
  assume "d \<in> set (Compare desired actual)" and "Rule d = ''required_checks''"
  then have "d = \<lparr>Rule = ''required_checks'',
                Pass = checksMatch (RequiredChecks desired) (RequiredChecks actual),
                Want = fmt_v (RequiredChecks desired), Got = fmt_v (RequiredChecks actual)\<rparr>"
    using required_checks_member [OF assms, of d actual] by blast
  then have "Pass d = checksMatch (RequiredChecks desired) (RequiredChecks actual)"
    by simp
  then show "Pass d = (len (RequiredChecks desired) = len (RequiredChecks actual) \<and>
                  (\<forall>c \<in> set (elems (RequiredChecks actual)).
                      c \<in> set (elems (RequiredChecks desired))))"
    by (simp only: checksMatch_iff)
qed

theorem required_checks_pass_iff_witness:
  "RequireStatusChecks checksDesired \<and>
   (\<exists>!d. d \<in> set (Compare checksDesired zeroRules) \<and> Rule d = ''required_checks'') \<and>
   Rule (Compare checksDesired zeroRules ! 3) = ''required_checks'' \<and>
   \<not> Pass (Compare checksDesired zeroRules ! 3)"
proof -
  have h: "RequireStatusChecks checksDesired"
    by (simp add: checksDesired_def)
  have c: "len (RequiredChecks checksDesired) \<noteq> len (RequiredChecks zeroRules)"
    by (simp add: checksDesired_def zeroRules_def len_def)
  have m: "Compare checksDesired zeroRules ! 3 \<in> set (Compare checksDesired zeroRules)"
    by (simp add: Compare_unfold checksDesired_def zeroRules_def)
  have r: "Rule (Compare checksDesired zeroRules ! 3) = ''required_checks''"
    by (simp add: Compare_unfold checksDesired_def zeroRules_def)
  from required_checks_pass_iff [OF h, of zeroRules] h c m r show ?thesis
    by blast
qed

text \<open>
  C2 (as amended). When the desired rule set requires status checks and lists the checks
  \<open>a\<close>, \<open>b\<close>, the one \<open>required_checks\<close> diff passes for the actual list \<open>b\<close>, \<open>a\<close>,
  and it passes as well for the actual list \<open>a\<close>, \<open>a\<close>: the lengths are equal and every
  actual entry is a desired entry.
\<close>

theorem required_checks_examples:
  assumes "RequireStatusChecks desired"
    and "RequiredChecks desired = Some [''a'', ''b'']"
    and "RequiredChecks actual = Some [''b'', ''a''] \<or> RequiredChecks actual = Some [''a'', ''a'']"
  shows "(\<exists>!d. d \<in> set (Compare desired actual) \<and> Rule d = ''required_checks'') \<and>
         (\<forall>d \<in> set (Compare desired actual). Rule d = ''required_checks'' \<longrightarrow> Pass d)"
proof -
  have m: "checksMatch (RequiredChecks desired) (RequiredChecks actual)"
    using assms(2,3) by (auto simp: checksMatch_iff len_def elems_def)
  have u: "\<exists>!d. d \<in> set (Compare desired actual) \<and> Rule d = ''required_checks''"
    by (simp only: required_checks_member [OF assms(1)]) blast
  have p: "Pass d" if "d \<in> set (Compare desired actual)" and "Rule d = ''required_checks''" for d
  proof -
    from that have "d = \<lparr>Rule = ''required_checks'',
                Pass = checksMatch (RequiredChecks desired) (RequiredChecks actual),
                Want = fmt_v (RequiredChecks desired), Got = fmt_v (RequiredChecks actual)\<rparr>"
      using required_checks_member [OF assms(1), of d actual] by blast
    then have "Pass d = checksMatch (RequiredChecks desired) (RequiredChecks actual)"
      by simp
    with m show ?thesis by simp
  qed
  from u p show ?thesis by blast
qed

theorem required_checks_examples_witness:
  "RequireStatusChecks checksDesired \<and>
   RequiredChecks checksDesired = Some [''a'', ''b''] \<and>
   RequiredChecks checksReordered = Some [''b'', ''a''] \<and>
   Rule (Compare checksDesired checksReordered ! 3) = ''required_checks'' \<and>
   Pass (Compare checksDesired checksReordered ! 3)"
proof -
  have h1: "RequireStatusChecks checksDesired"
    by (simp add: checksDesired_def)
  have h2: "RequiredChecks checksDesired = Some [''a'', ''b'']"
    by (simp add: checksDesired_def)
  have h3: "RequiredChecks checksReordered = Some [''b'', ''a'']"
    by (simp add: checksReordered_def)
  have m: "Compare checksDesired checksReordered ! 3 \<in> set (Compare checksDesired checksReordered)"
    by (simp add: Compare_unfold checksDesired_def zeroRules_def)
  have r: "Rule (Compare checksDesired checksReordered ! 3) = ''required_checks''"
    by (simp add: Compare_unfold checksDesired_def zeroRules_def)
  from required_checks_examples [OF h1 h2 disjI1 [OF h3]] m r
  have "Pass (Compare checksDesired checksReordered ! 3)"
    by blast
  with h1 h2 h3 r show ?thesis by blast
qed

text \<open>
  C2 as stated has the diff fail for the actual list \<open>a\<close>, \<open>a\<close>. With the desired list
  \<open>a\<close>, \<open>b\<close> the fourth diff is the one named \<open>required_checks\<close>, and it passes.
\<close>

theorem duplicated_checks_pass_counterexample:
  "Compare checksDesired checksDuplicated ! 3 =
     \<lparr>Rule = ''required_checks'', Pass = True, Want = ''[a b]'', Got = ''[a a]''\<rparr>"
  by (simp add: Compare_unfold checksMatch_iff checksDesired_def checksDuplicated_def
        zeroRules_def len_def elems_def fmt_v_def)

section \<open>The per-repository step of the driver\<close>

text \<open>
  C6. Take any repository of the list that is not excluded and whose fetch of branch
  protection ends in an exit error whose standard error mentions \<open>404\<close>, \<open>Not Found\<close> or
  \<open>Branch not protected\<close>. Its result is not skipped and carries no error; its diffs are
  those of the policy against the rule set with every flag false, the count 0 and the
  empty list of checks. If the policy enforces admins, the result is not compliant and
  holds the failing diff \<open>enforce_admins\<close>, wanted \<open>true\<close>, got \<open>false\<close>.
\<close>

theorem not_found_compared_with_baseline:
  assumes "i < length repos"
    and "gh w [''api'', ''repos/'' @ owner @ ''/'' @ Name (repos ! i) @ ''/branches/'' @
                          Branch cfg @ ''/protection''] = ExitError stderr"
    and "Contains stderr ''404'' \<or> Contains stderr ''Not Found'' \<or>
         Contains stderr ''Branch not protected''"
    and "\<not> lookup excludeSet (Name (repos ! i))"
  shows "auditLoop w owner cfg excludeSet [] repos ! i =
           \<lparr>Repo = Name (repos ! i),
            Compliant = allPass (Compare (Rules cfg)
              \<lparr>RequirePullRequest = False, RequiredApprovals = 0,
               DismissStaleReviews = False, RequireCodeOwnerReviews = False,
               RequireStatusChecks = False, StrictStatusChecks = False,
               RequiredChecks = Some [], EnforceAdmins = False, AllowForcePushes = False,
               AllowDeletions = False, RequiredLinearHistory = False,
               RequiredConversationResolution = False\<rparr>),
            Diffs = Compare (Rules cfg)
              \<lparr>RequirePullRequest = False, RequiredApprovals = 0,
               DismissStaleReviews = False, RequireCodeOwnerReviews = False,
               RequireStatusChecks = False, StrictStatusChecks = False,
               RequiredChecks = Some [], EnforceAdmins = False, AllowForcePushes = False,
               AllowDeletions = False, RequiredLinearHistory = False,
               RequiredConversationResolution = False\<rparr>,
            Error = [], Skipped = False\<rparr> \<and>
         (EnforceAdmins (Rules cfg) \<longrightarrow>
            \<not> Compliant (auditLoop w owner cfg excludeSet [] repos ! i) \<and>
            \<lparr>Rule = ''enforce_admins'', Pass = False, Want = ''true'', Got = ''false''\<rparr>
              \<in> set (Diffs (auditLoop w owner cfg excludeSet [] repos ! i)))"
proof -
  let ?base = "zeroRules\<lparr>RequiredChecks := Some []\<rparr>"
  have base: "?base = \<lparr>RequirePullRequest = False, RequiredApprovals = 0,
               DismissStaleReviews = False, RequireCodeOwnerReviews = False,
               RequireStatusChecks = False, StrictStatusChecks = False,
               RequiredChecks = Some [], EnforceAdmins = False, AllowForcePushes = False,
               AllowDeletions = False, RequiredLinearHistory = False,
               RequiredConversationResolution = False\<rparr>"
    by (simp add: zeroRules_def)
  have nth: "auditLoop w owner cfg excludeSet [] repos ! i =
               auditRepo w owner cfg excludeSet (repos ! i)"
    using assms(1) by (simp add: auditLoop_append)
  have res: "auditRepo w owner cfg excludeSet (repos ! i) =
           \<lparr>Repo = Name (repos ! i), Compliant = allPass (Compare (Rules cfg) ?base),
            Diffs = Compare (Rules cfg) ?base, Error = [], Skipped = False\<rparr>"
    using assms(2-4) by (rule auditRepo_not_found)
  have admins: "\<not> allPass (Compare (Rules cfg) ?base) \<and>
        \<lparr>Rule = ''enforce_admins'', Pass = False, Want = ''true'', Got = ''false''\<rparr>
              \<in> set (Compare (Rules cfg) ?base)" if "EnforceAdmins (Rules cfg)"
  proof -
    have m: "\<lparr>Rule = ''enforce_admins'', Pass = False, Want = ''true'', Got = ''false''\<rparr>
              \<in> set (Compare (Rules cfg) ?base)"
      using that by (rule enforce_admins_diff_baseline)
    then have "\<not> allPass (Compare (Rules cfg) ?base)"
      unfolding allPass_iff by force
    with m show ?thesis by simp
  qed
  show ?thesis
    unfolding nth res base [symmetric] using admins by simp
qed

theorem not_found_compared_with_baseline_witness:
  "(1::nat) < length exampleRepos \<and>
   gh exampleWorld [''api'', ''repos/'' @ ''octo'' @ ''/'' @ Name (exampleRepos ! 1) @
                      ''/branches/'' @ Branch Default @ ''/protection''] =
     ExitError ''gh: Branch not protected (HTTP 404)'' \<and>
   Contains ''gh: Branch not protected (HTTP 404)'' ''404'' \<and>
   \<not> lookup (fillSet Map.empty [''skipme'']) (Name (exampleRepos ! 1)) \<and>
   EnforceAdmins (Rules Default) \<and>
   Repo (auditLoop exampleWorld ''octo'' Default (fillSet Map.empty [''skipme'']) []
           exampleRepos ! 1) = ''bare'' \<and>
   \<not> Skipped (auditLoop exampleWorld ''octo'' Default (fillSet Map.empty [''skipme'']) []
           exampleRepos ! 1) \<and>
   \<not> Compliant (auditLoop exampleWorld ''octo'' Default (fillSet Map.empty [''skipme'']) []
           exampleRepos ! 1) \<and>
   \<lparr>Rule = ''enforce_admins'', Pass = False, Want = ''true'', Got = ''false''\<rparr>
      \<in> set (Diffs (auditLoop exampleWorld ''octo'' Default (fillSet Map.empty [''skipme'']) []
           exampleRepos ! 1))"
proof -
  have h1: "(1::nat) < length exampleRepos"
    by (simp add: exampleRepos_def)
  have h2: "gh exampleWorld [''api'', ''repos/'' @ ''octo'' @ ''/'' @ Name (exampleRepos ! 1) @
                      ''/branches/'' @ Branch Default @ ''/protection''] =
     ExitError ''gh: Branch not protected (HTTP 404)''"
    by (simp add: exampleWorld_def exampleRepos_def Default_def)
  have c: "Contains ''gh: Branch not protected (HTTP 404)'' ''404''"
    by simp
  then have h3: "Contains ''gh: Branch not protected (HTTP 404)'' ''404'' \<or>
                 Contains ''gh: Branch not protected (HTTP 404)'' ''Not Found'' \<or>
                 Contains ''gh: Branch not protected (HTTP 404)'' ''Branch not protected''"
    by (rule disjI1)
  have h4: "\<not> lookup (fillSet Map.empty [''skipme'']) (Name (exampleRepos ! 1))"
    by (simp add: lookup_def exampleRepos_def)
  have h5: "EnforceAdmins (Rules Default)"
    by (simp add: Default_def)
  let ?x = "auditLoop exampleWorld ''octo'' Default (fillSet Map.empty [''skipme'']) []
             exampleRepos ! 1"
  note inst = not_found_compared_with_baseline [OF h1 h2 h3 h4]
  from inst have eq: "?x = \<lparr>Repo = Name (exampleRepos ! 1),
            Compliant = allPass (Compare (Rules Default)
              \<lparr>RequirePullRequest = False, RequiredApprovals = 0,
               DismissStaleReviews = False, RequireCodeOwnerReviews = False,
               RequireStatusChecks = False, StrictStatusChecks = False,
               RequiredChecks = Some [], EnforceAdmins = False, AllowForcePushes = False,
               AllowDeletions = False, RequiredLinearHistory = False,
               RequiredConversationResolution = False\<rparr>),
            Diffs = Compare (Rules Default)
              \<lparr>RequirePullRequest = False, RequiredApprovals = 0,
               DismissStaleReviews = False, RequireCodeOwnerReviews = False,
               RequireStatusChecks = False, StrictStatusChecks = False,
               RequiredChecks = Some [], EnforceAdmins = False, AllowForcePushes = False,
               AllowDeletions = False, RequiredLinearHistory = False,
               RequiredConversationResolution = False\<rparr>,
            Error = [], Skipped = False\<rparr>"
    by (rule conjunct1)
  from inst h5 have a: "\<not> Compliant ?x \<and>
      \<lparr>Rule = ''enforce_admins'', Pass = False, Want = ''true'', Got = ''false''\<rparr>
        \<in> set (Diffs ?x)"
    by blast
  have r: "Repo ?x = ''bare''"
    unfolding eq by (simp add: exampleRepos_def)
  have s: "\<not> Skipped ?x"
    unfolding eq by simp
  from h1 h2 c h4 h5 r s a show ?thesis by blast
qed

text \<open>
  C1. The claim asks that a repository whose fetch is refused (403) be recorded as
  skipped with the reason \<open>insufficient permissions\<close> and be left out of the non-compliant
  count. In the run below the repository \<open>locked\<close> answers with a 403. It is recorded
  with the error \<open>insufficient permissions\<close> and not skipped, the non-compliant count is 1
  and the exit status is 1: \<open>GetBranchProtection\<close> reports the refusal as a non-nil
  error, which \<open>auditRepos\<close> tests before it tests \<open>ok\<close>, so the branch that would skip the
  repository is never taken (\<open>auditRepo_Skipped_only_excluded\<close>).
\<close>

theorem forbidden_recorded_as_error:
  "auditCmd exampleWorld (exampleFlags\<lparr>repo_flag := ''locked''\<rparr>) =
     Reported
       [\<lparr>Repo = ''locked'', Compliant = False, Diffs = [],
         Error = ''insufficient permissions'', Skipped = False\<rparr>]
       \<lparr>sum_compliant = 0, sum_nonCompliant = 1, sum_skipped = 0, sum_total = 1\<rparr> \<and>
   exitStatus (auditCmd exampleWorld (exampleFlags\<lparr>repo_flag := ''locked''\<rparr>)) = 1"
  by (simp add: run_defs exampleWorld_def exampleFlags_def)

text \<open>
  C3. The claim asks that the configured branch \<open>default\<close> be resolved to each
  repository's default branch before protection is fetched. In the run below the
  configuration says \<open>default\<close> and the repository \<open>app\<close> has the default branch
  \<open>master\<close>, which is protected exactly as the policy asks. The audit reports \<open>app\<close> as
  not compliant, with the diffs of an unprotected branch: it asked for the protection of
  a branch literally named \<open>default\<close>. The default branch of a repository is never read
  (\<open>auditRepo_ignores_DefaultBranch\<close>).
\<close>

theorem default_sentinel_used_literally:
  "auditRepos sentinelWorld ''octo'' [] ''rampart.yaml'' [] =
     Inr ([\<lparr>Repo = ''app'', Compliant = False,
            Diffs = Compare (Rules Default) (zeroRules\<lparr>RequiredChecks := Some []\<rparr>),
            Error = [], Skipped = False\<rparr>],
          Default\<lparr>Branch := ''default''\<rparr>) \<and>
   GetBranchProtection sentinelWorld ''octo'' ''app'' ''master'' =
     (RulesFromResponse goodResponse, True, None) \<and>
   allPass (Compare (Rules Default) (RulesFromResponse goodResponse))"
  by (simp add: run_defs sentinelWorld_def)

section \<open>The exit status of the audit command\<close>

text \<open>
  C8. For every run of the audit command that reaches its summary, the exit status is
  non-zero if and only if the non-compliant count is greater than zero, and that count is
  the number of results that are not skipped and either carry an error message or are not
  compliant: a repository whose fetch failed counts, a skipped one does not.
\<close>

theorem auditCmd_exit_status:
  assumes "auditCmd w flags = Reported results summary"
  shows "(exitStatus (auditCmd w flags) \<noteq> 0 \<longleftrightarrow> 0 < sum_nonCompliant summary) \<and>
         sum_nonCompliant summary =
           int (length (filter (\<lambda>r. \<not> Skipped r \<and> (Error r \<noteq> [] \<or> \<not> Compliant r)) results))"
proof -
  have "summary = summarise results"
    using assms by (auto simp: auditCmd_def split: sum.splits prod.splits if_splits)
  then have "sum_nonCompliant summary = countNonCompliant 0 results"
    by (simp only: sum_nonCompliant_summarise)
  moreover have "exitStatus (auditCmd w flags) \<noteq> 0 \<longleftrightarrow> 0 < sum_nonCompliant summary"
    by (simp add: assms exitStatus_def)
  ultimately show ?thesis
    by (simp add: countNonCompliant_eq)
qed

theorem auditCmd_exit_status_witness:
  "exitStatus (auditCmd exampleWorld exampleFlags) = 1 \<and>
   (\<exists>results summary.
      auditCmd exampleWorld exampleFlags = Reported results summary \<and>
      sum_nonCompliant summary = 3 \<and>
      map Skipped results = [False, False, False, False, True] \<and>
      map Error results = [[], [], ''insufficient permissions'',
                           ''gh api failed: gh: Server Error (HTTP 500)'', ''excluded''])"
  using auditCmd_exit_status [OF example_run] example_run
  by (simp add: exitStatus_def)

end
